theory Spec2Isabelle
  imports Complex_Main "HOL-Library.Multiset" "HOL-Library.Char_ord"
    "HOL-Library.List_Lexorder" "HOL-Library.Product_Lexorder"
begin

section \<open>The backend server of life-matters (src/backend/index.js)\<close>

text \<open>
  The server keeps two module-level variables, \<open>cachedClusters\<close> and
  \<open>unfilteredClusters\<close>, fills them once at startup from the clustering module, and
  serves three HTTP routes and one socket event from them. Every handler is modelled as
  a function from the request and the server state to the response and the new state.
  What a handler awaits from a collaborator whose code is not part of index.js (the
  Mongoose models, the matcher, the clustering module) is an argument of the handler: a
  value of \<open>error + 'a\<close>, with \<open>Inl\<close> for a rejected promise.
\<close>

subsection \<open>Values\<close>

text \<open>A thrown JavaScript \<open>Error\<close>, with its message.\<close>

datatype error = Error string

text \<open>
  The JSON body of an HTTP response: \<open>res.json(x)\<close> is \<open>Payload x\<close>,
  \<open>res.json({ message })\<close> is \<open>Message\<close>, and
  \<open>res.json({ message, data })\<close> is \<open>MessageData\<close>. A message written as a template
  literal with one interpolated number is \<open>Template\<close>: the text before the number, the
  number, the text after it. How JavaScript prints the number is not modelled.
\<close>

datatype 'a body =
  Payload 'a | Message string | MessageData string 'a | Template string int string

record 'a response =
  status :: nat
  body :: "'a body"

text \<open>\<open>res.json(x)\<close> without \<open>res.status\<close> answers 200.\<close>

definition json :: "'a \<Rightarrow> 'a response" where
  "json x = \<lparr>status = 200, body = Payload x\<rparr>"

definition status_message :: "nat \<Rightarrow> string \<Rightarrow> 'a response" where
  "status_message code msg = \<lparr>status = code, body = Message msg\<rparr>"

text \<open>
  The document a registration stores: \<open>{ name, phone, clusterZone }\<close>. The zone is
  whatever the clustering module puts into its \<open>clusters\<close> array (an object), so its
  type is a parameter.
\<close>

record 'z TrafficPoliceData =
  name :: string
  phone :: string
  clusterZone :: 'z

text \<open>
  The server state. \<open>collection\<close> is the MongoDB collection behind the
  \<open>TrafficPoliceData\<close> model; its representation belongs to the model, so its type is
  a parameter as well.
\<close>

record ('z, 'c) server =
  cachedClusters :: "'z list"
  unfilteredClusters :: "'z list"
  collection :: 'c

text \<open>At module load both variables are \<open>[]\<close>.\<close>

definition startup :: "'c \<Rightarrow> ('z, 'c) server" where
  "startup c = \<lparr>cachedClusters = [], unfilteredClusters = [], collection = c\<rparr>"

subsection \<open>JavaScript primitives the handlers use\<close>

text \<open>
  \<open>!x\<close> on an optional number and on an optional string: \<open>undefined\<close>, \<open>0\<close> and the
  empty string are falsy.
\<close>

fun falsy_number :: "int option \<Rightarrow> bool" where
  "falsy_number None = True"
| "falsy_number (Some n) = (n = 0)"

fun falsy_string :: "string option \<Rightarrow> bool" where
  "falsy_string None = True"
| "falsy_string (Some s) = (s = [])"

text \<open>
  \<open>xs[i]\<close> on an array with an integer \<open>i\<close>: \<open>undefined\<close> (\<open>None\<close>) outside
  \<open>0 .. xs.length - 1\<close>, negative indices included. \<open>!x\<close> on the value read is true
  for \<open>undefined\<close> and for a falsy element; which elements are falsy depends on what the
  array holds, so that test is an argument of the handler that makes it.
\<close>

definition array_get :: "'a list \<Rightarrow> int \<Rightarrow> 'a option" where
  "array_get xs i = (if 0 \<le> i \<and> i < int (length xs) then Some (xs ! nat i) else None)"

subsection \<open>Startup: initializeClusters\<close>

text \<open>
  What index.js sees of one run of the clustering module: \<open>returned\<close> is the outcome
  of \<open>await createClusters()\<close>, \<open>exported\<close> the value of the imported binding
  \<open>clusters\<close> when \<open>initializeClusters\<close> resumes after the \<open>await\<close>.
\<close>

record 'z cluster_run =
  returned :: "error + 'z list"
  exported :: "'z list"

text \<open>
  \<^verbatim>\<open>
  try { cachedClusters = await createClusters(); } catch (err) { console.error(...) }
  unfilteredClusters = clusters
  \<close>
  The function is the part of \<open>initializeClusters\<close> that runs after the \<open>await\<close>;
  before it, nothing of the state is written.
\<close>

definition initializeClusters :: "'z cluster_run \<Rightarrow> ('z, 'c) server \<Rightarrow> ('z, 'c) server" where
  "initializeClusters run s =
     (let s1 = (case returned run of
                  Inr zones \<Rightarrow> s\<lparr>cachedClusters := zones\<rparr>
                | Inl err \<Rightarrow> s)
      in s1\<lparr>unfilteredClusters := exported run\<rparr>)"

subsection \<open>GET /api/traffic-clusters\<close>

definition traffic_clusters :: "('z, 'c) server \<Rightarrow> 'z list response" where
  "traffic_clusters s =
     (if length (cachedClusters s) = 0
      then status_message 503 ''Clusters are still being processed. Try again later.''
      else json (cachedClusters s))"

subsection \<open>POST /api/traffic-police-register\<close>

text \<open>
  The request body, destructured as \<open>{ cluster: zoneId, name, phone }\<close>. The model
  covers a body whose \<open>cluster\<close> is absent or an integer and whose \<open>name\<close> and
  \<open>phone\<close> are absent or strings.
\<close>

record register_body =
  body_cluster :: "int option"
  body_name :: "string option"
  body_phone :: "string option"

text \<open>\<open>{ message: `Cluster with ID ${zoneId} not found` }\<close>\<close>

definition cluster_not_found :: "int \<Rightarrow> 'a body" where
  "cluster_not_found zoneId = Template ''Cluster with ID '' zoneId '' not found''"

text \<open>
  \<open>falsy_zone\<close> is \<open>!x\<close> on an element of \<open>unfilteredClusters\<close>. \<open>save\<close> is
  \<open>new TrafficPoliceData(d)\<close> followed by \<open>.save()\<close>: it throws, or yields the Mongoose
  document \<open>trafficPolice\<close> and the collection with the document written. The handler
  answers 400 and 404 before it builds the document, 500 when \<open>save\<close> throws, 201 with
  the Mongoose document otherwise.
\<close>

definition traffic_police_register ::
  "('z \<Rightarrow> bool) \<Rightarrow> ('z TrafficPoliceData \<Rightarrow> 'c \<Rightarrow> error + 'd \<times> 'c) \<Rightarrow> register_body
     \<Rightarrow> ('z, 'c) server \<Rightarrow> 'd response \<times> ('z, 'c) server" where
  "traffic_police_register falsy_zone save b s =
     (if falsy_number (body_cluster b) \<or> falsy_string (body_name b) \<or> falsy_string (body_phone b)
      then (status_message 400 ''Missing required fields'', s)
      else
        let zoneId = the (body_cluster b) in
        (case array_get (unfilteredClusters s) (zoneId - 1) of
           None \<Rightarrow> (\<lparr>status = 404, body = cluster_not_found zoneId\<rparr>, s)
         | Some zone \<Rightarrow>
             if falsy_zone zone
             then (\<lparr>status = 404, body = cluster_not_found zoneId\<rparr>, s)
             else
               let trafficPoliceData =
                 \<lparr>name = the (body_name b), phone = the (body_phone b), clusterZone = zone\<rparr>
               in (case save trafficPoliceData (collection s) of
                     Inl err \<Rightarrow> (status_message 500 ''Internal Server Error'', s)
                   | Inr (trafficPolice, c) \<Rightarrow>
                       (\<lparr>status = 201,
                         body = MessageData ''Traffic police registered successfully''
                                  trafficPolice\<rparr>,
                        s\<lparr>collection := c\<rparr>))))"

text \<open>
  A collection kept as the list of its documents, a document being the object it was
  built from; \<open>save\<close> appends.
\<close>

definition insert_document :: "'d \<Rightarrow> 'd list \<Rightarrow> error + 'd \<times> 'd list" where
  "insert_document d c = Inr (d, c @ [d])"

text \<open>Truthiness of a zone kept as a string: the empty string is falsy.\<close>

definition falsy_text :: "string \<Rightarrow> bool" where
  "falsy_text zone = (zone = [])"

subsection \<open>GET /api/traffic-signal\<close>

text \<open>
  One element of the stored \<open>TrafficSignal\<close> document. The handler reads the keys
  \<open>id\<close>, \<open>lat\<close> and \<open>lon\<close>; whatever else an element carries is the record's
  extension. Coordinates are JSON numbers, which the handler copies and never computes
  with, so they are modelled as reals. The coordinate pair is the specification's
  \<open>GeoPoint\<close>, which an element extends by its \<open>id\<close>.
\<close>

record GeoPoint =
  lat :: real
  lon :: real

record 'i element = GeoPoint +
  id' :: 'i

text \<open>\<open>elements\<close> is \<open>None\<close> when the document has no such key.\<close>

record 'e TrafficSignal =
  elements :: "'e list option"

text \<open>
  \<open>found\<close> is the outcome of \<open>await TrafficSignal.findOne()\<close>: a rejection, \<open>null\<close>
  (\<open>Inr None\<close>) or a document. An array is truthy even when empty, so
  \<open>trafficSignal?.elements\<close> is falsy only for a missing document or a missing key.
\<close>

definition traffic_signal ::
  "error + ('i, 'm) element_scheme TrafficSignal option \<Rightarrow> 'i element list response" where
  "traffic_signal found =
     (case found of
        Inl err \<Rightarrow> status_message 500 ''Internal Server Error''
      | Inr None \<Rightarrow> status_message 404 ''No traffic signal data found''
      | Inr (Some trafficSignal) \<Rightarrow>
          (case elements trafficSignal of
             None \<Rightarrow> status_message 404 ''No traffic signal data found''
           | Some els \<Rightarrow>
               json (map (\<lambda>element. \<lparr>lat = lat element, lon = lon element, id' = id' element\<rparr>)
                       els)))"

text \<open>The range the specification gives for a coordinate pair.\<close>

definition in_range :: "'m GeoPoint_scheme \<Rightarrow> bool" where
  "in_range e = (- 90 \<le> lat e \<and> lat e \<le> 90 \<and> - 180 \<le> lon e \<and> lon e \<le> 180)"

subsection \<open>Socket event request-traffic-signals\<close>

definition REQUEST_TRAFFIC_SIGNALS_EVENT :: string where
  "REQUEST_TRAFFIC_SIGNALS_EVENT = ''request-traffic-signals''"

definition TRAFFIC_SIGNALS_MATCHES_EVENT :: string where
  "TRAFFIC_SIGNALS_MATCHES_EVENT = ''traffic-signals-matches''"

text \<open>
  What the handler reads of one entry the matcher returns:
  \<open>signal.trafficSignal.geometry.coordinates\<close>, an array of numbers. The other keys of
  an entry (ids, distances) are the records' extensions.
\<close>

record geometry =
  coordinates :: "real list"

record signal_document =
  geometry :: geometry

record 'd nearby_signal =
  trafficSignal :: 'd

text \<open>
  One entry of the emitted array, \<open>{ lat, lng }\<close>; a key is \<open>None\<close> when the
  coordinate array is too short (\<open>undefined\<close>).
\<close>

record matched =
  matched_lat :: "real option"
  matched_lng :: "real option"

datatype payload = MatchedData "matched list" | ErrorObject string

record emission =
  event :: string
  payload :: payload

text \<open>
  \<open>findNearbyTrafficSignals\<close> is the matcher: it throws or yields the list of nearby
  signals of a route.
\<close>

definition on_request_traffic_signals ::
  "('r \<Rightarrow> error + ('m1 signal_document_scheme, 'm2) nearby_signal_scheme list) \<Rightarrow> 'r \<Rightarrow> emission"
  where
  "on_request_traffic_signals findNearbyTrafficSignals routePoints =
     (case findNearbyTrafficSignals routePoints of
        Inr signals \<Rightarrow>
          \<lparr>event = TRAFFIC_SIGNALS_MATCHES_EVENT,
           payload = MatchedData
             (map (\<lambda>signal.
                    \<lparr>matched_lat = array_get (coordinates (geometry (trafficSignal signal))) 1,
                     matched_lng = array_get (coordinates (geometry (trafficSignal signal))) 0\<rparr>)
                  signals)\<rparr>
      | Inl err \<Rightarrow>
          \<lparr>event = TRAFFIC_SIGNALS_MATCHES_EVENT,
           payload = ErrorObject ''Error fetching traffic signals''\<rparr>)"

subsection \<open>The event loop\<close>

text \<open>
  Node runs a handler to its next \<open>await\<close> before it runs another, so the requests
  that arrive while \<open>createClusters\<close> is pending are handled one after the other on the
  state \<open>initializeClusters\<close> has not yet written. Only the two routes that read the
  server's variables are requests here.
\<close>

datatype request = ListClusters | Register register_body

datatype ('z, 'd) reply = Listed "'z list response" | Registered "'d response"

fun handle ::
  "('z \<Rightarrow> bool) \<Rightarrow> ('z TrafficPoliceData \<Rightarrow> 'c \<Rightarrow> error + 'd \<times> 'c) \<Rightarrow> request
     \<Rightarrow> ('z, 'c) server \<Rightarrow> ('z, 'd) reply \<times> ('z, 'c) server" where
  "handle falsy_zone save ListClusters s = (Listed (traffic_clusters s), s)"
| "handle falsy_zone save (Register b) s =
     (case traffic_police_register falsy_zone save b s of (r, s') \<Rightarrow> (Registered r, s'))"

fun serve ::
  "('z \<Rightarrow> bool) \<Rightarrow> ('z TrafficPoliceData \<Rightarrow> 'c \<Rightarrow> error + 'd \<times> 'c) \<Rightarrow> request list
     \<Rightarrow> ('z, 'c) server \<Rightarrow> ('z, 'd) reply list \<times> ('z, 'c) server" where
  "serve falsy_zone save [] s = ([], s)"
| "serve falsy_zone save (q # qs) s =
     (case handle falsy_zone save q s of
        (r, s') \<Rightarrow> (case serve falsy_zone save qs s' of (rs, s'') \<Rightarrow> (r # rs, s'')))"

subsection \<open>The zone clustering engine, as the specification describes it\<close>

text \<open>
  Modelled from the spec: \<open>cluster\<close> of section 4.4 with the data model of section 3,
  the computation behind \<open>createClusters\<close> in utils/trafficSignalClusters.js, which is
  not among the sources. \<open>distanceMeters\<close> (section 4.1, a floating-point haversine)
  and the iteration cap of the relaxation (left open in section 9) are parameters.
  Where the text leaves a choice, the model takes the first candidate in zone order.
\<close>

record SignalRecord =
  signal_id :: string
  location :: GeoPoint

record grouping =
  members :: "SignalRecord list"
  centroid :: GeoPoint

record Zone = grouping +
  index :: nat

datatype failure = InvalidRoute | InvalidParameter | CatalogUnavailable | NotFound | Timeout

text \<open>Step 1: the catalog sorted by latitude, then longitude, then id.\<close>

definition sort_catalog :: "SignalRecord list \<Rightarrow> SignalRecord list" where
  "sort_catalog catalog =
     sort_key (\<lambda>r. (lat (location r), lon (location r), signal_id r)) catalog"

text \<open>The position of the zone whose centroid is nearest to a point; the first of equals.\<close>

fun nearest :: "(GeoPoint \<Rightarrow> GeoPoint \<Rightarrow> real) \<Rightarrow> GeoPoint \<Rightarrow> grouping list \<Rightarrow> nat option" where
  "nearest distanceMeters p [] = None"
| "nearest distanceMeters p (z # zs) =
     (case nearest distanceMeters p zs of
        None \<Rightarrow> Some 0
      | Some j \<Rightarrow>
          if distanceMeters p (centroid z) \<le> distanceMeters p (centroid (zs ! j))
          then Some 0 else Some (Suc j))"

definition join :: "SignalRecord \<Rightarrow> nat \<Rightarrow> grouping list \<Rightarrow> grouping list" where
  "join r j zs = zs[j := (zs ! j)\<lparr>members := members (zs ! j) @ [r]\<rparr>]"

text \<open>
  Step 2: a signal joins the nearest existing zone when that zone's centroid is within
  the radius, and seeds a new zone otherwise.
\<close>

definition seed_step ::
  "(GeoPoint \<Rightarrow> GeoPoint \<Rightarrow> real) \<Rightarrow> real \<Rightarrow> grouping list \<Rightarrow> SignalRecord \<Rightarrow> grouping list" where
  "seed_step distanceMeters targetRadiusMeters zs r =
     (case nearest distanceMeters (location r) zs of
        None \<Rightarrow> zs @ [\<lparr>members = [r], centroid = location r\<rparr>]
      | Some j \<Rightarrow>
          if distanceMeters (location r) (centroid (zs ! j)) \<le> targetRadiusMeters
          then join r j zs
          else zs @ [\<lparr>members = [r], centroid = location r\<rparr>])"

text \<open>Step 3: the centroid of a zone is the mean of its members' coordinates.\<close>

definition mean_point :: "SignalRecord list \<Rightarrow> GeoPoint" where
  "mean_point rs =
     \<lparr>lat = sum_list (map (\<lambda>r. lat (location r)) rs) / real (length rs),
      lon = sum_list (map (\<lambda>r. lon (location r)) rs) / real (length rs)\<rparr>"

definition recompute :: "grouping list \<Rightarrow> grouping list" where
  "recompute zs = map (\<lambda>z. z\<lparr>centroid := mean_point (members z)\<rparr>) zs"

text \<open>
  Step 4, one round: every signal goes to the zone with the nearest centroid; a zone
  left without members is dropped, and the centroids are recomputed.
\<close>

definition reassign ::
  "(GeoPoint \<Rightarrow> GeoPoint \<Rightarrow> real) \<Rightarrow> SignalRecord list \<Rightarrow> grouping list \<Rightarrow> grouping list" where
  "reassign distanceMeters rs zs =
     filter (\<lambda>z. members z \<noteq> [])
       (foldl (\<lambda>acc r. case nearest distanceMeters (location r) zs of
                          None \<Rightarrow> acc
                        | Some j \<Rightarrow> join r j acc)
          (map (\<lambda>z. z\<lparr>members := []\<rparr>) zs) rs)"

text \<open>Step 4: rounds until no membership changes, at most \<open>cap\<close> of them.\<close>

fun relax ::
  "(GeoPoint \<Rightarrow> GeoPoint \<Rightarrow> real) \<Rightarrow> nat \<Rightarrow> SignalRecord list \<Rightarrow> grouping list \<Rightarrow> grouping list"
  where
  "relax distanceMeters 0 rs zs = zs"
| "relax distanceMeters (Suc cap) rs zs =
     (let zs' = recompute (reassign distanceMeters rs zs)
      in if map members zs' = map members zs then zs'
         else relax distanceMeters cap rs zs')"

text \<open>
  Step 5: indices 1..N in the order of ascending centroid latitude, then longitude.
\<close>

definition assign_indices :: "grouping list \<Rightarrow> Zone list" where
  "assign_indices zs =
     map (\<lambda>(i, z). \<lparr>members = members z, centroid = centroid z, index = Suc i\<rparr>)
       (enumerate 0 (sort_key (\<lambda>z. (lat (centroid z), lon (centroid z))) zs))"

definition cluster ::
  "(GeoPoint \<Rightarrow> GeoPoint \<Rightarrow> real) \<Rightarrow> nat \<Rightarrow> SignalRecord list \<Rightarrow> real \<Rightarrow> failure + Zone list" where
  "cluster distanceMeters cap catalog targetRadiusMeters =
     (if targetRadiusMeters \<le> 0 then Inl InvalidParameter
      else
        let rs = sort_catalog catalog;
            seeded = recompute (foldl (seed_step distanceMeters targetRadiusMeters) [] rs)
        in Inr (assign_indices (relax distanceMeters cap rs seeded)))"

section \<open>Properties\<close>

subsection \<open>Array reads and the variables a handler leaves alone\<close>

lemma array_get_None_iff:
  "array_get xs i = None \<longleftrightarrow> i < 0 \<or> int (length xs) \<le> i"
  by (auto simp: array_get_def)

lemma array_get_in_range:
  "0 \<le> i \<Longrightarrow> i < int (length xs) \<Longrightarrow> array_get xs i = Some (xs ! nat i)"
  by (simp add: array_get_def)

lemma on_request_traffic_signals_success:
  assumes "findNearbyTrafficSignals routePoints = Inr signals"
  shows "on_request_traffic_signals findNearbyTrafficSignals routePoints =
           \<lparr>event = TRAFFIC_SIGNALS_MATCHES_EVENT,
            payload = MatchedData
              (map (\<lambda>cs. \<lparr>matched_lat = array_get cs 1, matched_lng = array_get cs 0\<rparr>)
                 (map (\<lambda>x. coordinates (geometry (trafficSignal x))) signals))\<rparr>"
  using assms by (simp add: on_request_traffic_signals_def comp_def)

lemma register_cachedClusters:
  "cachedClusters (snd (traffic_police_register falsy_zone save b s)) = cachedClusters s"
  by (simp add: traffic_police_register_def Let_def split: option.splits sum.splits prod.splits)


lemma handle_cachedClusters:
  "cachedClusters (snd (handle falsy_zone save q s)) = cachedClusters s"
  by (cases q) (simp_all add: split_beta register_cachedClusters)


lemma serve_cachedClusters:
  "cachedClusters (snd (serve falsy_zone save qs s)) = cachedClusters s"
proof (induction qs arbitrary: s)
  case Nil
  show ?case by simp
next
  case (Cons q qs)
  have "cachedClusters (snd (serve falsy_zone save qs (snd (handle falsy_zone save q s)))) =
      cachedClusters s"
    by (simp add: Cons.IH handle_cachedClusters)
  then show ?case
    by (simp add: split_beta)
qed



lemma traffic_clusters_startup:
  "traffic_clusters (startup c) =
     status_message 503 ''Clusters are still being processed. Try again later.''"
  by (simp add: traffic_clusters_def startup_def)

lemma traffic_clusters_cong:
  "cachedClusters s' = cachedClusters s \<Longrightarrow> traffic_clusters s' = traffic_clusters s"
  by (simp add: traffic_clusters_def)

lemma serve_listing:
  "i < length qs \<Longrightarrow> qs ! i = ListClusters \<Longrightarrow>
     fst (serve falsy_zone save qs s) ! i = Listed (traffic_clusters s)"
proof (induction qs arbitrary: s i)
  case Nil
  then show ?case by simp
next
  case (Cons q qs)
  show ?case
  proof (cases i)
    case 0
    with Cons.prems show ?thesis
      by (simp add: split_beta)
  next
    case (Suc j)
    with Cons.prems
    have "fst (serve falsy_zone save qs (snd (handle falsy_zone save q s))) ! j =
        Listed (traffic_clusters (snd (handle falsy_zone save q s)))"
      by (intro Cons.IH) simp_all
    also have "traffic_clusters (snd (handle falsy_zone save q s)) = traffic_clusters s"
      by (rule traffic_clusters_cong) (rule handle_cachedClusters)
    finally show ?thesis
      using Suc by (simp add: split_beta)
  qed
qed

lemma sort_catalog_mset:
  assumes "mset catalog' = mset catalog"
  shows "sort_catalog catalog' = sort_catalog catalog"
  unfolding sort_catalog_def
proof (rule sort_key_eq_sort_key [OF assms])
  show "inj_on (\<lambda>r. (lat (location r), lon (location r), signal_id r)) (set catalog')"
    by (rule inj_onI) (simp add: SignalRecord.equality GeoPoint.equality)
qed

subsection \<open>Zone lookup at registration\<close>

text \<open>
  C1, as the code has it. A registration with a name and a phone that gives the zone
  number \<open>n\<close>, on a server with N zones: for \<open>n = 0\<close> the guard \<open>!zoneId\<close> answers
  400 "Missing required fields" (not 404); for every other \<open>n\<close> outside 1..N the answer
  is 404 "Cluster with ID n not found"; for \<open>1 \<le> n \<le> N\<close> the handler reads the nth
  zone, \<open>unfilteredClusters[n - 1]\<close>: a falsy element is answered 404 like a missing
  one, a truthy one (every object is) is handed to \<open>save\<close>, and the answer is 201, or 500
  when the write throws.
\<close>

theorem zone_lookup_by_index:
  assumes "body_cluster b = Some n"
    and "\<not> falsy_string (body_name b)" and "\<not> falsy_string (body_phone b)"
  shows "(n = 0 \<longrightarrow>
            traffic_police_register falsy_zone save b s =
              (status_message 400 ''Missing required fields'', s))
       \<and> (n < 0 \<or> int (length (unfilteredClusters s)) < n \<longrightarrow>
            traffic_police_register falsy_zone save b s =
              (\<lparr>status = 404, body = cluster_not_found n\<rparr>, s))
       \<and> (1 \<le> n \<and> n \<le> int (length (unfilteredClusters s))
            \<and> falsy_zone (unfilteredClusters s ! nat (n - 1)) \<longrightarrow>
            traffic_police_register falsy_zone save b s =
              (\<lparr>status = 404, body = cluster_not_found n\<rparr>, s))
       \<and> (1 \<le> n \<and> n \<le> int (length (unfilteredClusters s))
            \<and> \<not> falsy_zone (unfilteredClusters s ! nat (n - 1)) \<longrightarrow>
            traffic_police_register falsy_zone save b s =
              (case save \<lparr>name = the (body_name b), phone = the (body_phone b),
                          clusterZone = unfilteredClusters s ! nat (n - 1)\<rparr> (collection s) of
                 Inl err \<Rightarrow> (status_message 500 ''Internal Server Error'', s)
               | Inr (trafficPolice, c) \<Rightarrow>
                   (\<lparr>status = 201,
                     body = MessageData ''Traffic police registered successfully''
                              trafficPolice\<rparr>,
                    s\<lparr>collection := c\<rparr>)))"
proof (intro conjI impI)
  assume "n = 0"
  with assms show "traffic_police_register falsy_zone save b s =
      (status_message 400 ''Missing required fields'', s)"
    by (simp add: traffic_police_register_def)
next
  assume "n < 0 \<or> int (length (unfilteredClusters s)) < n"
  then have "array_get (unfilteredClusters s) (n - 1) = None" and "n \<noteq> 0"
    by (auto simp: array_get_None_iff)
  with assms show "traffic_police_register falsy_zone save b s =
      (\<lparr>status = 404, body = cluster_not_found n\<rparr>, s)"
    by (simp add: traffic_police_register_def)
next
  assume h: "1 \<le> n \<and> n \<le> int (length (unfilteredClusters s))
      \<and> falsy_zone (unfilteredClusters s ! nat (n - 1))"
  then have "array_get (unfilteredClusters s) (n - 1) = Some (unfilteredClusters s ! nat (n - 1))"
    and "n \<noteq> 0"
    by (simp_all add: array_get_in_range)
  with assms h show "traffic_police_register falsy_zone save b s =
      (\<lparr>status = 404, body = cluster_not_found n\<rparr>, s)"
    by (simp add: traffic_police_register_def)
next
  assume h: "1 \<le> n \<and> n \<le> int (length (unfilteredClusters s))
      \<and> \<not> falsy_zone (unfilteredClusters s ! nat (n - 1))"
  then have "array_get (unfilteredClusters s) (n - 1) = Some (unfilteredClusters s ! nat (n - 1))"
    and "n \<noteq> 0"
    by (simp_all add: array_get_in_range)
  with assms h show "traffic_police_register falsy_zone save b s =
      (case save \<lparr>name = the (body_name b), phone = the (body_phone b),
                  clusterZone = unfilteredClusters s ! nat (n - 1)\<rparr> (collection s) of
         Inl err \<Rightarrow> (status_message 500 ''Internal Server Error'', s)
       | Inr (trafficPolice, c) \<Rightarrow>
           (\<lparr>status = 201,
             body = MessageData ''Traffic police registered successfully'' trafficPolice\<rparr>,
            s\<lparr>collection := c\<rparr>))"
    by (simp add: traffic_police_register_def Let_def)
qed

theorem zone_lookup_by_index_witness:
  "traffic_police_register falsy_text insert_document
       \<lparr>body_cluster = Some 0, body_name = Some ''Asha'', body_phone = Some ''100''\<rparr>
       \<lparr>cachedClusters = [''north'', ''south'', []],
        unfilteredClusters = [''north'', ''south'', []], collection = []\<rparr> =
     (status_message 400 ''Missing required fields'',
      \<lparr>cachedClusters = [''north'', ''south'', []],
       unfilteredClusters = [''north'', ''south'', []], collection = []\<rparr>)
   \<and> traffic_police_register falsy_text insert_document
       \<lparr>body_cluster = Some 4, body_name = Some ''Asha'', body_phone = Some ''100''\<rparr>
       \<lparr>cachedClusters = [''north'', ''south'', []],
        unfilteredClusters = [''north'', ''south'', []], collection = []\<rparr> =
     (\<lparr>status = 404, body = cluster_not_found 4\<rparr>,
      \<lparr>cachedClusters = [''north'', ''south'', []],
       unfilteredClusters = [''north'', ''south'', []], collection = []\<rparr>)
   \<and> traffic_police_register falsy_text insert_document
       \<lparr>body_cluster = Some 3, body_name = Some ''Asha'', body_phone = Some ''100''\<rparr>
       \<lparr>cachedClusters = [''north'', ''south'', []],
        unfilteredClusters = [''north'', ''south'', []], collection = []\<rparr> =
     (\<lparr>status = 404, body = cluster_not_found 3\<rparr>,
      \<lparr>cachedClusters = [''north'', ''south'', []],
       unfilteredClusters = [''north'', ''south'', []], collection = []\<rparr>)
   \<and> traffic_police_register falsy_text insert_document
       \<lparr>body_cluster = Some 2, body_name = Some ''Asha'', body_phone = Some ''100''\<rparr>
       \<lparr>cachedClusters = [''north'', ''south'', []],
        unfilteredClusters = [''north'', ''south'', []], collection = []\<rparr> =
     (\<lparr>status = 201,
       body = MessageData ''Traffic police registered successfully''
                \<lparr>name = ''Asha'', phone = ''100'', clusterZone = ''south''\<rparr>\<rparr>,
      \<lparr>cachedClusters = [''north'', ''south'', []],
       unfilteredClusters = [''north'', ''south'', []],
       collection = [\<lparr>name = ''Asha'', phone = ''100'', clusterZone = ''south''\<rparr>]\<rparr>)"
proof -
  let ?s = "\<lparr>cachedClusters = [''north'', ''south'', []],
             unfilteredClusters = [''north'', ''south'', []],
             collection = [] :: string TrafficPoliceData list\<rparr>"
  let ?b = "\<lambda>n. \<lparr>body_cluster = Some n, body_name = Some ''Asha'', body_phone = Some ''100''\<rparr>"
  note t = zone_lookup_by_index [where falsy_zone = falsy_text and save = insert_document
      and s = ?s]
  have 0: "traffic_police_register falsy_text insert_document (?b 0) ?s =
      (status_message 400 ''Missing required fields'', ?s)"
    using t [where n = 0 and b = "?b 0"] by simp
  have 4: "traffic_police_register falsy_text insert_document (?b 4) ?s =
      (\<lparr>status = 404, body = cluster_not_found 4\<rparr>, ?s)"
    using t [where n = 4 and b = "?b 4"] by simp
  have 3: "traffic_police_register falsy_text insert_document (?b 3) ?s =
      (\<lparr>status = 404, body = cluster_not_found 3\<rparr>, ?s)"
    using t [where n = 3 and b = "?b 3"] by (simp add: falsy_text_def)
  have 2: "traffic_police_register falsy_text insert_document (?b 2) ?s =
      (\<lparr>status = 201,
        body = MessageData ''Traffic police registered successfully''
                 \<lparr>name = ''Asha'', phone = ''100'', clusterZone = ''south''\<rparr>\<rparr>,
       ?s\<lparr>collection := [\<lparr>name = ''Asha'', phone = ''100'', clusterZone = ''south''\<rparr>]\<rparr>)"
    using t [where n = 2 and b = "?b 2"] by (simp add: falsy_text_def insert_document_def)
  from 0 4 3 2 show ?thesis
    by simp
qed

text \<open>
  C1 as stated fails at index 0: with two zones, the answer to zone number 0 is 400,
  not 404.
\<close>

theorem index_zero_counterexample:
  "status (fst (traffic_police_register falsy_text insert_document
       \<lparr>body_cluster = Some 0, body_name = Some ''Asha'', body_phone = Some ''100''\<rparr>
       \<lparr>cachedClusters = [''north'', ''south''], unfilteredClusters = [''north'', ''south''],
        collection = []\<rparr>)) = 400
   \<and> status (fst (traffic_police_register falsy_text insert_document
       \<lparr>body_cluster = Some 0, body_name = Some ''Asha'', body_phone = Some ''100''\<rparr>
       \<lparr>cachedClusters = [''north'', ''south''], unfilteredClusters = [''north'', ''south''],
        collection = []\<rparr>)) \<noteq> 404"
  by (simp add: traffic_police_register_def status_message_def)

subsection \<open>The zones listing\<close>

text \<open>
  C2, as the code has it. After a clustering run that returned the zone list \<open>zones\<close>,
  the listing answers 503 "Clusters are still being processed. Try again later." when
  \<open>zones\<close> is empty, and 200 with the list otherwise: an empty result is answered
  like a run that has not finished.
\<close>

theorem empty_clustering_listing:
  assumes "returned run = Inr zones"
  shows "traffic_clusters (initializeClusters run s) =
           (if zones = []
            then status_message 503 ''Clusters are still being processed. Try again later.''
            else json zones)"
  using assms by (simp add: traffic_clusters_def initializeClusters_def)

theorem empty_clustering_listing_witness:
  "traffic_clusters (initializeClusters \<lparr>returned = Inr [], exported = []\<rparr>
       (startup ([] :: nat TrafficPoliceData list))) =
     (status_message 503 ''Clusters are still being processed. Try again later.''
        :: nat list response)
   \<and> traffic_clusters (initializeClusters \<lparr>returned = Inr [4, 7], exported = [4, 7]\<rparr>
       (startup ([] :: nat TrafficPoliceData list))) = json [4, 7 :: nat]"
proof -
  let ?s = "startup ([] :: nat TrafficPoliceData list) :: (nat, nat TrafficPoliceData list) server"
  have "returned \<lparr>returned = Inr ([] :: nat list), exported = []\<rparr> = Inr []"
    by simp
  from empty_clustering_listing [OF this, of ?s]
  have 1: "traffic_clusters (initializeClusters \<lparr>returned = Inr [], exported = []\<rparr> ?s) =
      status_message 503 ''Clusters are still being processed. Try again later.''"
    by simp
  have "returned \<lparr>returned = Inr [4, 7 :: nat], exported = [4, 7]\<rparr> = Inr [4, 7]"
    by simp
  from empty_clustering_listing [OF this, of ?s]
  have 2: "traffic_clusters (initializeClusters \<lparr>returned = Inr [4, 7], exported = [4, 7]\<rparr> ?s) =
      json [4, 7]"
    by simp
  from 1 2 show ?thesis
    by (rule conjI)
qed

text \<open>
  C2 as stated fails: after a run that produced zero zones the listing answers 503.
\<close>

theorem empty_clustering_counterexample:
  "status (traffic_clusters (initializeClusters \<lparr>returned = Inr ([] :: nat list), exported = []\<rparr>
       (startup ([] :: nat TrafficPoliceData list)))) = 503"
  by (simp add: traffic_clusters_def initializeClusters_def startup_def status_message_def)

subsection \<open>The socket event\<close>

text \<open>
  C3. When the matcher throws, the handler emits the object
  \<open>{ message: 'Error fetching traffic signals' }\<close>; when it succeeds with no match,
  the handler emits the empty array; the two emissions differ.
\<close>

theorem matching_failure_distinguishable:
  assumes "findFailing route1 = Inl err" and "findNothing route2 = Inr []"
  shows "payload (on_request_traffic_signals findFailing route1) =
           ErrorObject ''Error fetching traffic signals''
       \<and> payload (on_request_traffic_signals findNothing route2) = MatchedData []
       \<and> on_request_traffic_signals findFailing route1 \<noteq>
           on_request_traffic_signals findNothing route2"
  using assms by (simp add: on_request_traffic_signals_def)

theorem matching_failure_distinguishable_witness:
  "(\<lambda>route. Inl (Error ''matcher unavailable'')) [(18.52 :: real, 73.85 :: real)] =
       (Inl (Error ''matcher unavailable'') :: error + signal_document nearby_signal list)
   \<and> (\<lambda>route. Inr []) [(18.52 :: real, 73.85 :: real)] =
       (Inr [] :: error + signal_document nearby_signal list)
   \<and> payload (on_request_traffic_signals
        (\<lambda>route. Inl (Error ''matcher unavailable'') :: error + signal_document nearby_signal list)
        [(18.52 :: real, 73.85 :: real)]) =
       ErrorObject ''Error fetching traffic signals''
   \<and> payload (on_request_traffic_signals
        (\<lambda>route. Inr [] :: error + signal_document nearby_signal list)
        [(18.52 :: real, 73.85 :: real)]) = MatchedData []
   \<and> on_request_traffic_signals
        (\<lambda>route. Inl (Error ''matcher unavailable'') :: error + signal_document nearby_signal list)
        [(18.52 :: real, 73.85 :: real)] \<noteq>
       on_request_traffic_signals
        (\<lambda>route. Inr [] :: error + signal_document nearby_signal list)
        [(18.52 :: real, 73.85 :: real)]"
  using matching_failure_distinguishable
    [where findFailing =
        "\<lambda>route. Inl (Error ''matcher unavailable'') :: error + signal_document nearby_signal list"
      and findNothing = "\<lambda>route. Inr [] :: error + signal_document nearby_signal list"
      and ?route1.0 = "[(18.52 :: real, 73.85 :: real)]"
      and ?route2.0 = "[(18.52 :: real, 73.85 :: real)]"
      and err = "Error ''matcher unavailable''"]
  by simp

text \<open>
  C4. When the matcher succeeds, the emitted payload is an array with one entry per
  matched signal, in the matcher's order; entry \<open>i\<close> holds \<open>coordinates[1]\<close> as \<open>lat\<close> and
  \<open>coordinates[0]\<close> as \<open>lng\<close> of signal \<open>i\<close> and nothing else: two results with the same
  coordinate arrays give the same emission, whatever ids and distances they carry.
\<close>

theorem emitted_matches_only_coordinates:
  fixes findNearbyTrafficSignals ::
    "'r \<Rightarrow> error + ('m1 signal_document_scheme, 'm2) nearby_signal_scheme list"
  assumes "findNearbyTrafficSignals routePoints = Inr signals"
  shows "\<exists>ms. on_request_traffic_signals findNearbyTrafficSignals routePoints =
              \<lparr>event = TRAFFIC_SIGNALS_MATCHES_EVENT, payload = MatchedData ms\<rparr>
           \<and> length ms = length signals
           \<and> (\<forall>i < length signals.
                 matched_lat (ms ! i) =
                   array_get (coordinates (geometry (trafficSignal (signals ! i)))) 1
               \<and> matched_lng (ms ! i) =
                   array_get (coordinates (geometry (trafficSignal (signals ! i)))) 0)
           \<and> (\<forall>(other :: 'r \<Rightarrow> error + ('m1 signal_document_scheme, 'm2) nearby_signal_scheme list)
                  route signals'.
                 other route = Inr signals'
                 \<and> map (\<lambda>x. coordinates (geometry (trafficSignal x))) signals' =
                     map (\<lambda>x. coordinates (geometry (trafficSignal x))) signals
                 \<longrightarrow> on_request_traffic_signals other route =
                       on_request_traffic_signals findNearbyTrafficSignals routePoints)"
proof -
  let ?ms = "map (\<lambda>cs. \<lparr>matched_lat = array_get cs 1, matched_lng = array_get cs 0\<rparr>)
               (map (\<lambda>x. coordinates (geometry (trafficSignal x))) signals)"
  note e = on_request_traffic_signals_success [of findNearbyTrafficSignals routePoints signals, OF assms]
  show ?thesis
  proof (intro exI [of _ ?ms] conjI allI impI)
    show "on_request_traffic_signals findNearbyTrafficSignals routePoints =
            \<lparr>event = TRAFFIC_SIGNALS_MATCHES_EVENT, payload = MatchedData ?ms\<rparr>"
      by (rule e)
  next
    show "length ?ms = length signals"
      by simp
  next
    fix i
    assume "i < length signals"
    then show "matched_lat (?ms ! i) =
        array_get (coordinates (geometry (trafficSignal (signals ! i)))) 1"
      by simp
  next
    fix i
    assume "i < length signals"
    then show "matched_lng (?ms ! i) =
        array_get (coordinates (geometry (trafficSignal (signals ! i)))) 0"
      by simp
  next
    fix other :: "'r \<Rightarrow> error + ('m1 signal_document_scheme, 'm2) nearby_signal_scheme list"
      and route signals'
    assume h: "other route = Inr signals'
      \<and> map (\<lambda>x. coordinates (geometry (trafficSignal x))) signals' =
          map (\<lambda>x. coordinates (geometry (trafficSignal x))) signals"
    from h have "other route = Inr signals'" ..
    note e' = on_request_traffic_signals_success [of other route signals', OF this]
    from h have "map (\<lambda>x. coordinates (geometry (trafficSignal x))) signals' =
          map (\<lambda>x. coordinates (geometry (trafficSignal x))) signals" ..
    with e e' show "on_request_traffic_signals other route =
        on_request_traffic_signals findNearbyTrafficSignals routePoints"
      by (simp only:)
  qed
qed

theorem emitted_matches_only_coordinates_witness:
  "(\<lambda>route. Inr [\<lparr>trafficSignal = \<lparr>geometry = \<lparr>coordinates = [73.85, 18.52]\<rparr>, \<dots> = ''node-7''\<rparr>,
                     \<dots> = 12 :: nat\<rparr>]) [(18.52 :: real, 73.85 :: real)] =
     (Inr [\<lparr>trafficSignal = \<lparr>geometry = \<lparr>coordinates = [73.85, 18.52]\<rparr>, \<dots> = ''node-7''\<rparr>,
            \<dots> = 12 :: nat\<rparr>] :: error + (string signal_document_scheme, nat) nearby_signal_scheme list)
   \<and> on_request_traffic_signals
        (\<lambda>route. Inr [\<lparr>trafficSignal = \<lparr>geometry = \<lparr>coordinates = [73.85, 18.52]\<rparr>, \<dots> = ''node-7''\<rparr>,
                         \<dots> = 12 :: nat\<rparr>])
        [(18.52 :: real, 73.85 :: real)] =
       \<lparr>event = ''traffic-signals-matches'',
        payload = MatchedData [\<lparr>matched_lat = Some 18.52, matched_lng = Some 73.85\<rparr>]\<rparr>
   \<and> on_request_traffic_signals
        (\<lambda>route. Inr [\<lparr>trafficSignal = \<lparr>geometry = \<lparr>coordinates = [73.85, 18.52]\<rparr>, \<dots> = ''node-9''\<rparr>,
                         \<dots> = 40 :: nat\<rparr>])
        [(18.52 :: real, 73.85 :: real)] =
       on_request_traffic_signals
        (\<lambda>route. Inr [\<lparr>trafficSignal = \<lparr>geometry = \<lparr>coordinates = [73.85, 18.52]\<rparr>, \<dots> = ''node-7''\<rparr>,
                         \<dots> = 12 :: nat\<rparr>])
        [(18.52 :: real, 73.85 :: real)]"
proof -
  let ?r = "[(18.52 :: real, 73.85 :: real)]"
  let ?sigs = "[\<lparr>trafficSignal = \<lparr>geometry = \<lparr>coordinates = [73.85, 18.52]\<rparr>, \<dots> = ''node-7''\<rparr>,
                 \<dots> = 12 :: nat\<rparr>]"
  let ?f = "\<lambda>route :: (real \<times> real) list. Inr ?sigs
              :: error + (string signal_document_scheme, nat) nearby_signal_scheme list"
  let ?sigs' = "[\<lparr>trafficSignal = \<lparr>geometry = \<lparr>coordinates = [73.85, 18.52]\<rparr>, \<dots> = ''node-9''\<rparr>,
                  \<dots> = 40 :: nat\<rparr>]"
  let ?g = "\<lambda>route :: (real \<times> real) list. Inr ?sigs'
              :: error + (string signal_document_scheme, nat) nearby_signal_scheme list"
  have h: "?f ?r = Inr ?sigs"
    by simp
  from emitted_matches_only_coordinates [of ?f ?r ?sigs, OF h]
  obtain ms where ms: "on_request_traffic_signals ?f ?r =
        \<lparr>event = TRAFFIC_SIGNALS_MATCHES_EVENT, payload = MatchedData ms\<rparr>"
      "length ms = length ?sigs"
      "\<forall>i < length ?sigs.
           matched_lat (ms ! i) = array_get (coordinates (geometry (trafficSignal (?sigs ! i)))) 1
         \<and> matched_lng (ms ! i) = array_get (coordinates (geometry (trafficSignal (?sigs ! i)))) 0"
    and ni: "\<forall>(other :: (real \<times> real) list \<Rightarrow>
                  error + (string signal_document_scheme, nat) nearby_signal_scheme list)
               route signals'.
          other route = Inr signals'
          \<and> map (\<lambda>x. coordinates (geometry (trafficSignal x))) signals' =
              map (\<lambda>x. coordinates (geometry (trafficSignal x))) ?sigs
          \<longrightarrow> on_request_traffic_signals other route = on_request_traffic_signals ?f ?r"
    by blast
  from ms(2) obtain m where m: "ms = [m]"
    by (cases ms) auto
  from ms(3) m have "matched_lat m = Some 18.52" "matched_lng m = Some 73.85"
    by (simp_all add: array_get_def)
  then have "m = \<lparr>matched_lat = Some 18.52, matched_lng = Some 73.85\<rparr>"
    by (cases m) simp
  with ms(1) m have 1: "on_request_traffic_signals ?f ?r =
       \<lparr>event = ''traffic-signals-matches'',
        payload = MatchedData [\<lparr>matched_lat = Some 18.52, matched_lng = Some 73.85\<rparr>]\<rparr>"
    by (simp add: TRAFFIC_SIGNALS_MATCHES_EVENT_def)
  have 2: "on_request_traffic_signals ?g ?r = on_request_traffic_signals ?f ?r"
    using ni [rule_format, of ?g ?r ?sigs'] by simp
  from h 1 2 show ?thesis
    by simp
qed

subsection \<open>The signal catalog\<close>

text \<open>
  C5, as the code has it. When the stored document has an \<open>elements\<close> array, the answer
  is 200 with one \<open>{ id, lat, lon }\<close> record per element, in order, whatever the
  coordinates are: no record is rejected, and no record makes the request fail.
\<close>

theorem catalog_served_unfiltered:
  assumes "found = Inr (Some doc)" and "elements doc = Some els"
  shows "\<exists>results. traffic_signal found = json results
           \<and> length results = length els
           \<and> (\<forall>i < length els.
                 id' (results ! i) = id' (els ! i)
               \<and> lat (results ! i) = lat (els ! i)
               \<and> lon (results ! i) = lon (els ! i))"
proof -
  let ?results = "map (\<lambda>element. \<lparr>lat = lat element, lon = lon element, id' = id' element\<rparr>) els"
  have "traffic_signal found = json ?results"
    using assms by (simp add: traffic_signal_def)
  moreover have "length ?results = length els"
    by simp
  moreover have "\<forall>i < length els.
      id' (?results ! i) = id' (els ! i) \<and> lat (?results ! i) = lat (els ! i)
      \<and> lon (?results ! i) = lon (els ! i)"
    by simp
  ultimately show ?thesis
    by (intro exI [of _ ?results] conjI)
qed

theorem catalog_served_unfiltered_witness:
  "elements \<lparr>elements = Some [\<lparr>lat = 91, lon = 0, id' = 1 :: nat\<rparr>,
                               \<lparr>lat = 18.52, lon = 73.85, id' = 2\<rparr>]\<rparr> =
     Some [\<lparr>lat = 91, lon = 0, id' = 1 :: nat\<rparr>, \<lparr>lat = 18.52, lon = 73.85, id' = 2\<rparr>]
   \<and> traffic_signal (Inr (Some \<lparr>elements = Some [\<lparr>lat = 91, lon = 0, id' = 1 :: nat\<rparr>,
                               \<lparr>lat = 18.52, lon = 73.85, id' = 2\<rparr>]\<rparr>)) =
       json [\<lparr>lat = 91, lon = 0, id' = 1 :: nat\<rparr>, \<lparr>lat = 18.52, lon = 73.85, id' = 2\<rparr>]"
proof -
  let ?els = "[\<lparr>lat = 91, lon = 0, id' = 1 :: nat\<rparr>, \<lparr>lat = 18.52, lon = 73.85, id' = 2\<rparr>]"
  let ?doc = "\<lparr>elements = Some ?els\<rparr>"
  have h: "elements ?doc = Some ?els"
    by simp
  from catalog_served_unfiltered [OF refl h]
  obtain results where r: "traffic_signal (Inr (Some ?doc)) = json results"
      "length results = length ?els"
      "\<forall>i < length ?els. id' (results ! i) = id' (?els ! i)
         \<and> lat (results ! i) = lat (?els ! i) \<and> lon (results ! i) = lon (?els ! i)"
    by blast
  from r(2) obtain a b where ab: "results = [a, b]"
    by (cases results; cases "tl results") auto
  from r(3) ab have "id' a = 1 \<and> lat a = 91 \<and> lon a = 0"
    and "id' b = 2 \<and> lat b = 18.52 \<and> lon b = 73.85"
    by (auto simp: All_less_Suc2 numeral_2_eq_2)
  then have "a = \<lparr>lat = 91, lon = 0, id' = 1\<rparr>" and "b = \<lparr>lat = 18.52, lon = 73.85, id' = 2\<rparr>"
    by (cases a; cases b; simp)+
  with r(1) ab h show ?thesis
    by simp
qed

text \<open>
  C5 as stated fails: a record with latitude 91 is served with the others.
\<close>

theorem out_of_range_record_counterexample:
  "traffic_signal (Inr (Some \<lparr>elements = Some
       [\<lparr>lat = 91, lon = 0, id' = 1 :: nat\<rparr>, \<lparr>lat = 18, lon = 73, id' = 2\<rparr>]\<rparr>)) =
     json [\<lparr>lat = 91, lon = 0, id' = 1\<rparr>, \<lparr>lat = 18, lon = 73, id' = 2\<rparr>]
   \<and> \<not> in_range \<lparr>lat = 91, lon = 0, id' = 1 :: nat\<rparr>"
  by (simp add: traffic_signal_def in_range_def)

subsection \<open>Registration\<close>



text \<open>
  C10. A registration answered 201 has written, through \<open>save\<close>, the document
  \<open>{ name, phone, clusterZone }\<close> whose \<open>clusterZone\<close> is the whole zone object
  \<open>unfilteredClusters[n - 1]\<close>; the document has no key for the zone number.
\<close>

theorem registration_embeds_zone:
  assumes "status (fst (traffic_police_register falsy_zone save b s)) = 201"
  shows "\<exists>n nm ph zone trafficPolice c.
           body_cluster b = Some n \<and> body_name b = Some nm \<and> body_phone b = Some ph
         \<and> 1 \<le> n \<and> n \<le> int (length (unfilteredClusters s))
         \<and> zone = unfilteredClusters s ! nat (n - 1)
         \<and> \<not> falsy_zone zone
         \<and> save \<lparr>name = nm, phone = ph, clusterZone = zone\<rparr> (collection s) =
             Inr (trafficPolice, c)
         \<and> traffic_police_register falsy_zone save b s =
             (\<lparr>status = 201,
               body = MessageData ''Traffic police registered successfully'' trafficPolice\<rparr>,
              s\<lparr>collection := c\<rparr>)"
proof -
  have truthy: "\<not> falsy_number (body_cluster b)" "\<not> falsy_string (body_name b)"
    "\<not> falsy_string (body_phone b)"
    using assms by (auto simp: traffic_police_register_def status_message_def)
  then obtain n nm ph where b: "body_cluster b = Some n" "body_name b = Some nm"
    "body_phone b = Some ph"
    by (cases "body_cluster b"; cases "body_name b"; cases "body_phone b") auto
  from assms truthy b obtain zone where z: "array_get (unfilteredClusters s) (n - 1) = Some zone"
    by (cases "array_get (unfilteredClusters s) (n - 1)")
      (auto simp: traffic_police_register_def status_message_def)
  then have r: "1 \<le> n" "n \<le> int (length (unfilteredClusters s))"
    "zone = unfilteredClusters s ! nat (n - 1)"
    by (auto simp: array_get_def split: if_splits)
  from assms truthy b z have f: "\<not> falsy_zone zone"
    by (auto simp: traffic_police_register_def status_message_def)
  from assms truthy b z f obtain trafficPolice c where
    c: "save \<lparr>name = nm, phone = ph, clusterZone = zone\<rparr> (collection s) =
          Inr (trafficPolice, c)"
    by (cases "save \<lparr>name = nm, phone = ph, clusterZone = zone\<rparr> (collection s)")
      (auto simp: traffic_police_register_def status_message_def)
  have "traffic_police_register falsy_zone save b s =
      (\<lparr>status = 201,
        body = MessageData ''Traffic police registered successfully'' trafficPolice\<rparr>,
       s\<lparr>collection := c\<rparr>)"
    using truthy b z f c by (simp add: traffic_police_register_def)
  with b r f c show ?thesis
    by blast
qed

theorem registration_embeds_zone_witness:
  "status (fst (traffic_police_register (\<lambda>zone. False) insert_document
       \<lparr>body_cluster = Some 2, body_name = Some ''Asha'', body_phone = Some ''100''\<rparr>
       \<lparr>cachedClusters = [[''s1''], [''s2'', ''s3'']],
        unfilteredClusters = [[''s1''], [''s2'', ''s3'']], collection = []\<rparr>)) = 201
   \<and> collection (snd (traffic_police_register (\<lambda>zone. False) insert_document
       \<lparr>body_cluster = Some 2, body_name = Some ''Asha'', body_phone = Some ''100''\<rparr>
       \<lparr>cachedClusters = [[''s1''], [''s2'', ''s3'']],
        unfilteredClusters = [[''s1''], [''s2'', ''s3'']], collection = []\<rparr>)) =
     [\<lparr>name = ''Asha'', phone = ''100'', clusterZone = [''s2'', ''s3'']\<rparr>]"
proof -
  let ?b = "\<lparr>body_cluster = Some 2, body_name = Some ''Asha'', body_phone = Some ''100''\<rparr>"
  let ?s = "\<lparr>cachedClusters = [[''s1''], [''s2'', ''s3'']],
             unfilteredClusters = [[''s1''], [''s2'', ''s3'']],
             collection = [] :: string list TrafficPoliceData list\<rparr>"
  let ?f = "\<lambda>zone :: string list. False"
  have h: "status (fst (traffic_police_register ?f insert_document ?b ?s)) = 201"
    by (simp add: traffic_police_register_def array_get_def insert_document_def Let_def)
  from registration_embeds_zone [of ?f insert_document ?b ?s, OF h]
  obtain n nm ph zone trafficPolice c where
    "body_cluster ?b = Some n" "body_name ?b = Some nm" "body_phone ?b = Some ph"
    "zone = unfilteredClusters ?s ! nat (n - 1)"
    "insert_document \<lparr>name = nm, phone = ph, clusterZone = zone\<rparr> (collection ?s) =
       Inr (trafficPolice, c)"
    "traffic_police_register ?f insert_document ?b ?s =
       (\<lparr>status = 201,
         body = MessageData ''Traffic police registered successfully'' trafficPolice\<rparr>,
        ?s\<lparr>collection := c\<rparr>)"
    by blast
  then have "collection (snd (traffic_police_register ?f insert_document ?b ?s)) =
      [\<lparr>name = ''Asha'', phone = ''100'', clusterZone = [''s2'', ''s3'']\<rparr>]"
    by (auto simp: insert_document_def)
  with h show ?thesis
    by simp
qed

subsection \<open>Startup and the requests served meanwhile\<close>

text \<open>
  C7. Let \<open>qs\<close> be the requests handled while \<open>createClusters\<close> is pending. None of
  them changes \<open>cachedClusters\<close>, every listing among them is answered from the list
  published before, and when \<open>initializeClusters\<close> resumes, \<open>cachedClusters\<close> becomes the
  complete returned list in one assignment (or stays as it was when the run failed).
\<close>

theorem listing_replaced_by_one_assignment:
  "cachedClusters (snd (serve falsy_zone save qs s)) = cachedClusters s
   \<and> (\<forall>i < length qs. qs ! i = ListClusters \<longrightarrow>
         fst (serve falsy_zone save qs s) ! i = Listed (traffic_clusters s))
   \<and> cachedClusters (initializeClusters run (snd (serve falsy_zone save qs s))) =
       (case returned run of Inr zones \<Rightarrow> zones | Inl err \<Rightarrow> cachedClusters s)"
proof (intro conjI allI impI)
  show "cachedClusters (snd (serve falsy_zone save qs s)) = cachedClusters s"
    by (rule serve_cachedClusters)
next
  fix i
  assume "i < length qs" and "qs ! i = ListClusters"
  then show "fst (serve falsy_zone save qs s) ! i = Listed (traffic_clusters s)"
    by (rule serve_listing)
next
  show "cachedClusters (initializeClusters run (snd (serve falsy_zone save qs s))) =
       (case returned run of Inr zones \<Rightarrow> zones | Inl err \<Rightarrow> cachedClusters s)"
    by (simp add: initializeClusters_def serve_cachedClusters split: sum.splits)
qed

theorem listing_replaced_by_one_assignment_witness:
  "fst (serve falsy_text insert_document
         [ListClusters,
          Register \<lparr>body_cluster = Some 1, body_name = Some ''Asha'', body_phone = Some ''100''\<rparr>,
          ListClusters]
         \<lparr>cachedClusters = [''old''], unfilteredClusters = [''old''], collection = []\<rparr>) ! 2 =
     Listed (json [''old''])
   \<and> cachedClusters (initializeClusters
        \<lparr>returned = Inr [''north'', ''south''], exported = [''north'', ''south'']\<rparr>
        (snd (serve falsy_text insert_document
         [ListClusters,
          Register \<lparr>body_cluster = Some 1, body_name = Some ''Asha'', body_phone = Some ''100''\<rparr>,
          ListClusters]
         \<lparr>cachedClusters = [''old''], unfilteredClusters = [''old''], collection = []\<rparr>))) =
     [''north'', ''south'']"
proof -
  let ?qs = "[ListClusters,
          Register \<lparr>body_cluster = Some 1, body_name = Some ''Asha'', body_phone = Some ''100''\<rparr>,
          ListClusters]"
  let ?s = "\<lparr>cachedClusters = [''old''], unfilteredClusters = [''old''],
             collection = [] :: string TrafficPoliceData list\<rparr>"
  let ?run = "\<lparr>returned = Inr [''north'', ''south''], exported = [''north'', ''south'']\<rparr>"
  note t = listing_replaced_by_one_assignment [of falsy_text insert_document ?qs ?s ?run]
  from t have "\<forall>i < length ?qs. ?qs ! i = ListClusters \<longrightarrow>
      fst (serve falsy_text insert_document ?qs ?s) ! i = Listed (traffic_clusters ?s)"
    by (elim conjE)
  from this [rule_format, of 2]
  have 1: "fst (serve falsy_text insert_document ?qs ?s) ! 2 = Listed (json [''old''])"
    by (simp add: traffic_clusters_def)
  from t have 2: "cachedClusters (initializeClusters ?run
        (snd (serve falsy_text insert_document ?qs ?s))) = [''north'', ''south'']"
    by simp
  from 1 2 show ?thesis
    by (rule conjI)
qed




subsection \<open>Clustering\<close>

text \<open>
  C8. For the clustering of section 4.4: the result is determined by the records of the
  catalog and the threshold. Two runs on catalogs that hold the same records, in
  whatever order, with the same \<open>targetRadiusMeters\<close> give the same outcome: the same
  zones with the same members and the same indices.
\<close>

theorem cluster_deterministic:
  assumes "mset catalog' = mset catalog"
  shows "cluster distanceMeters cap catalog' targetRadiusMeters =
         cluster distanceMeters cap catalog targetRadiusMeters"
  by (simp add: cluster_def sort_catalog_mset [OF assms])

theorem cluster_deterministic_witness:
  "mset [\<lparr>signal_id = ''d'', location = \<lparr>lat = 18.546, lon = 73.8\<rparr>\<rparr>,
         \<lparr>signal_id = ''b'', location = \<lparr>lat = 18.501, lon = 73.8\<rparr>\<rparr>,
         \<lparr>signal_id = ''c'', location = \<lparr>lat = 18.545, lon = 73.8\<rparr>\<rparr>,
         \<lparr>signal_id = ''a'', location = \<lparr>lat = 18.5, lon = 73.8\<rparr>\<rparr>] =
   mset [\<lparr>signal_id = ''a'', location = \<lparr>lat = 18.5, lon = 73.8\<rparr>\<rparr>,
         \<lparr>signal_id = ''c'', location = \<lparr>lat = 18.545, lon = 73.8\<rparr>\<rparr>,
         \<lparr>signal_id = ''b'', location = \<lparr>lat = 18.501, lon = 73.8\<rparr>\<rparr>,
         \<lparr>signal_id = ''d'', location = \<lparr>lat = 18.546, lon = 73.8\<rparr>\<rparr>]
   \<and> cluster (\<lambda>p q. 111000 * (\<bar>lat p - lat q\<bar> + \<bar>lon p - lon q\<bar>)) 10
        [\<lparr>signal_id = ''d'', location = \<lparr>lat = 18.546, lon = 73.8\<rparr>\<rparr>,
         \<lparr>signal_id = ''b'', location = \<lparr>lat = 18.501, lon = 73.8\<rparr>\<rparr>,
         \<lparr>signal_id = ''c'', location = \<lparr>lat = 18.545, lon = 73.8\<rparr>\<rparr>,
         \<lparr>signal_id = ''a'', location = \<lparr>lat = 18.5, lon = 73.8\<rparr>\<rparr>] 1000 =
       Inr [\<lparr>members =
               [\<lparr>signal_id = ''a'', location = \<lparr>lat = 18.5, lon = 73.8\<rparr>\<rparr>,
                \<lparr>signal_id = ''b'', location = \<lparr>lat = 18.501, lon = 73.8\<rparr>\<rparr>],
             centroid = \<lparr>lat = 18.5005, lon = 73.8\<rparr>, index = 1\<rparr>,
            \<lparr>members =
               [\<lparr>signal_id = ''c'', location = \<lparr>lat = 18.545, lon = 73.8\<rparr>\<rparr>,
                \<lparr>signal_id = ''d'', location = \<lparr>lat = 18.546, lon = 73.8\<rparr>\<rparr>],
             centroid = \<lparr>lat = 18.5455, lon = 73.8\<rparr>, index = 2\<rparr>]"
proof -
  let ?d = "\<lambda>p q. 111000 * (\<bar>lat p - lat q\<bar> + \<bar>lon p - lon q\<bar>)"
  let ?shuffled = "[\<lparr>signal_id = ''d'', location = \<lparr>lat = 18.546, lon = 73.8\<rparr>\<rparr>,
         \<lparr>signal_id = ''b'', location = \<lparr>lat = 18.501, lon = 73.8\<rparr>\<rparr>,
         \<lparr>signal_id = ''c'', location = \<lparr>lat = 18.545, lon = 73.8\<rparr>\<rparr>,
         \<lparr>signal_id = ''a'', location = \<lparr>lat = 18.5, lon = 73.8\<rparr>\<rparr>]"
  let ?catalog = "[\<lparr>signal_id = ''a'', location = \<lparr>lat = 18.5, lon = 73.8\<rparr>\<rparr>,
         \<lparr>signal_id = ''c'', location = \<lparr>lat = 18.545, lon = 73.8\<rparr>\<rparr>,
         \<lparr>signal_id = ''b'', location = \<lparr>lat = 18.501, lon = 73.8\<rparr>\<rparr>,
         \<lparr>signal_id = ''d'', location = \<lparr>lat = 18.546, lon = 73.8\<rparr>\<rparr>]"
  have h: "mset ?shuffled = mset ?catalog"
    by simp
  have "cluster ?d 10 ?catalog 1000 =
       Inr [\<lparr>members =
               [\<lparr>signal_id = ''a'', location = \<lparr>lat = 18.5, lon = 73.8\<rparr>\<rparr>,
                \<lparr>signal_id = ''b'', location = \<lparr>lat = 18.501, lon = 73.8\<rparr>\<rparr>],
             centroid = \<lparr>lat = 18.5005, lon = 73.8\<rparr>, index = 1\<rparr>,
            \<lparr>members =
               [\<lparr>signal_id = ''c'', location = \<lparr>lat = 18.545, lon = 73.8\<rparr>\<rparr>,
                \<lparr>signal_id = ''d'', location = \<lparr>lat = 18.546, lon = 73.8\<rparr>\<rparr>],
             centroid = \<lparr>lat = 18.5455, lon = 73.8\<rparr>, index = 2\<rparr>]"
    by (simp add: cluster_def sort_catalog_def seed_step_def join_def mean_point_def
        recompute_def reassign_def assign_indices_def Let_def eval_nat_numeral)
  with cluster_deterministic [OF h, of ?d 10 1000] h show ?thesis
    by (simp only: simp_thms)
qed

end
